theory Spec2Isabelle
  imports Complex_Main "HOL-Library.AList" "HOL-Library.Sublist"
begin

section \<open>borgwrap: configuration values and the Python operations used on them\<close>

text \<open>
  The program (\<^verbatim>\<open>borgwraplib/app.py\<close>) reads a YAML document with \<^verbatim>\<open>yaml.safe_load\<close>
  and works on the resulting Python object with subscripts, \<^verbatim>\<open>in\<close>, \<^verbatim>\<open>for\<close>,
  \<^verbatim>\<open>str\<close> and \<^verbatim>\<open>==\<close>. The object is modelled as a value of type \<open>yaml\<close>:

  \<^item> \<open>YNull\<close> is \<^verbatim>\<open>None\<close>, \<open>YBool\<close> a \<^verbatim>\<open>bool\<close>, \<open>YInt\<close> an (unbounded) \<^verbatim>\<open>int\<close>,
    \<open>YStr\<close> a \<^verbatim>\<open>str\<close>, \<open>YList\<close> a \<^verbatim>\<open>list\<close>;
  \<^item> \<open>YFloat x r\<close> is a finite \<^verbatim>\<open>float\<close>: \<open>x\<close> is its exact value and \<open>r\<close> the text that
    Python prints for it (the interpreter computes that text, not this program);
  \<^item> \<open>YDict\<close> is a \<^verbatim>\<open>dict\<close> with string keys, as the list of its items in insertion
    (document) order; a key is looked up with \<open>map_of\<close>.

  Strings are lists of characters with codes below 128. Timestamps, binary scalars,
  sets, infinite floats and mappings with keys that are not strings, which a YAML
  document can also hold, are not modelled.
\<close>

datatype yaml =
    YNull
  | YBool bool
  | YInt int
  | YFloat rat string
  | YStr string
  | YList "yaml list"
  | YDict "(string \<times> yaml) list"

text \<open>The exceptions that the program and the library calls it makes can raise.\<close>

datatype py_error =
    KeyError yaml
  | IndexError
  | TypeError
  | ValueError
  | CalledProcessError int
  | SystemExit int

type_synonym 'a result = "py_error + 'a"

definition ebind :: "'a result \<Rightarrow> ('a \<Rightarrow> 'b result) \<Rightarrow> 'b result" where
  "ebind m f = (case m of Inl e \<Rightarrow> Inl e | Inr x \<Rightarrow> f x)"

subsection \<open>Subscript, membership, iteration\<close>

text \<open>\<^verbatim>\<open>obj[key]\<close> with a string key.\<close>

fun py_getitem :: "yaml \<Rightarrow> string \<Rightarrow> yaml result" where
  "py_getitem (YDict d) k = (case map_of d k of None \<Rightarrow> Inl (KeyError (YStr k)) | Some v \<Rightarrow> Inr v)"
| "py_getitem _ k = Inl TypeError"

text \<open>\<^verbatim>\<open>obj[0]\<close>.\<close>

fun py_getitem0 :: "yaml \<Rightarrow> yaml result" where
  "py_getitem0 (YList xs) = (case xs of [] \<Rightarrow> Inl IndexError | x # _ \<Rightarrow> Inr x)"
| "py_getitem0 (YStr s) = (case s of [] \<Rightarrow> Inl IndexError | c # _ \<Rightarrow> Inr (YStr [c]))"
| "py_getitem0 (YDict d) = Inl (KeyError (YInt 0))"
| "py_getitem0 _ = Inl TypeError"

text \<open>\<^verbatim>\<open>key in obj\<close> with a string key: key membership for a dict, element membership
  for a list, substring test for a string.\<close>

fun py_contains :: "string \<Rightarrow> yaml \<Rightarrow> bool result" where
  "py_contains k (YDict d) = Inr (map_of d k \<noteq> None)"
| "py_contains k (YList xs) = Inr (YStr k \<in> set xs)"
| "py_contains k (YStr s) = Inr (sublist k s)"
| "py_contains k _ = Inl TypeError"

text \<open>The elements that \<^verbatim>\<open>for x in obj\<close> visits.\<close>

fun py_iter :: "yaml \<Rightarrow> yaml list result" where
  "py_iter (YList xs) = Inr xs"
| "py_iter (YDict d) = Inr (map (\<lambda>kv. YStr (fst kv)) d)"
| "py_iter (YStr s) = Inr (map (\<lambda>c. YStr [c]) s)"
| "py_iter _ = Inl TypeError"

text \<open>\<^verbatim>\<open>obj += "text"\<close>: concatenation for a string; a list is extended by the characters.\<close>

fun py_iadd_str :: "yaml \<Rightarrow> string \<Rightarrow> yaml result" where
  "py_iadd_str (YStr r) s = Inr (YStr (r @ s))"
| "py_iadd_str (YList xs) s = Inr (YList (xs @ map (\<lambda>c. YStr [c]) s))"
| "py_iadd_str _ s = Inl TypeError"

text \<open>\<^verbatim>\<open>some_list + obj\<close>.\<close>

fun py_list_add :: "yaml list \<Rightarrow> yaml \<Rightarrow> yaml list result" where
  "py_list_add xs (YList ys) = Inr (xs @ ys)"
| "py_list_add xs _ = Inl TypeError"

text \<open>\<^verbatim>\<open>obj < n\<close> for an integer \<open>n\<close>.\<close>

fun py_lt_int :: "yaml \<Rightarrow> int \<Rightarrow> bool result" where
  "py_lt_int (YInt a) n = Inr (a < n)"
| "py_lt_int (YBool b) n = Inr ((if b then 1 else 0) < n)"
| "py_lt_int (YFloat x r) n = Inr (x < of_int n)"
| "py_lt_int _ n = Inl TypeError"

subsection \<open>\<^verbatim>\<open>str\<close>, \<^verbatim>\<open>repr\<close> and \<^verbatim>\<open>str.lower\<close>\<close>

fun nat_digits :: "nat \<Rightarrow> string" where
  "nat_digits n =
     (if n < 10 then [''0123456789'' ! n]
      else nat_digits (n div 10) @ [''0123456789'' ! (n mod 10)])"

definition int_str :: "int \<Rightarrow> string" where
  "int_str i = (if i < 0 then ''-'' @ nat_digits (nat (- i)) else nat_digits (nat i))"

fun py_join :: "string \<Rightarrow> string list \<Rightarrow> string" where
  "py_join sep [] = []"
| "py_join sep [x] = x"
| "py_join sep (x # y # ys) = x @ sep @ py_join sep (y # ys)"

definition hex2 :: "nat \<Rightarrow> string" where
  "hex2 n = [''0123456789abcdef'' ! (n div 16 mod 16), ''0123456789abcdef'' ! (n mod 16)]"

definition repr_char :: "char \<Rightarrow> char \<Rightarrow> string" where
  "repr_char quote c =
     (if c = quote \<or> c = CHR 0x5C then [CHR 0x5C, c]
      else if c = CHR 0x09 then [CHR 0x5C, CHR ''t'']
      else if c = CHR 0x0A then [CHR 0x5C, CHR ''n'']
      else if c = CHR 0x0D then [CHR 0x5C, CHR ''r'']
      else if (of_char c :: nat) < 32 \<or> (of_char c :: nat) = 127
        then [CHR 0x5C, CHR ''x''] @ hex2 (of_char c)
      else [c])"

definition str_repr :: "string \<Rightarrow> string" where
  "str_repr s =
     (let quote = (if CHR 0x27 \<in> set s \<and> CHR 0x22 \<notin> set s then CHR 0x22 else CHR 0x27)
      in [quote] @ concat (map (repr_char quote) s) @ [quote])"

fun py_repr :: "yaml \<Rightarrow> string" where
  "py_repr YNull = ''None''"
| "py_repr (YBool b) = (if b then ''True'' else ''False'')"
| "py_repr (YInt i) = int_str i"
| "py_repr (YFloat x r) = r"
| "py_repr (YStr s) = str_repr s"
| "py_repr (YList xs) = ''['' @ py_join '', '' (map py_repr xs) @ '']''"
| "py_repr (YDict d) =
     ''{'' @ py_join '', '' (map (\<lambda>kv. str_repr (fst kv) @ '': '' @ py_repr (snd kv)) d) @ ''}''"

text \<open>\<^verbatim>\<open>str(obj)\<close>, which is also what \<^verbatim>\<open>"{}".format(obj)\<close> inserts.\<close>

definition py_str :: "yaml \<Rightarrow> string" where
  "py_str v = (case v of YStr s \<Rightarrow> s | _ \<Rightarrow> py_repr v)"

definition lower_char :: "char \<Rightarrow> char" where
  "lower_char c =
     (case map_of (zip ''ABCDEFGHIJKLMNOPQRSTUVWXYZ'' ''abcdefghijklmnopqrstuvwxyz'') c of
        Some l \<Rightarrow> l
      | None \<Rightarrow> c)"

definition py_lower :: "string \<Rightarrow> string" where
  "py_lower s = map lower_char s"

section \<open>The program\<close>

subsection \<open>\<^verbatim>\<open>config_is_true\<close>\<close>

definition config_is_true :: "yaml \<Rightarrow> bool" where
  "config_is_true v =
     (case v of
        YBool b \<Rightarrow> b
      | YStr s \<Rightarrow> py_lower s \<in> set [''yes'', ''true'']
      | YInt i \<Rightarrow> i = 1
      | YFloat x r \<Rightarrow> x = 1
      | _ \<Rightarrow> False)"

subsection \<open>The process boundary\<close>

text \<open>
  Everything outside the program is a parameter of the model, gathered in \<open>world\<close>:

  \<^item> \<open>spawn cmds env capture\<close> is \<^verbatim>\<open>subprocess.run(cmds, env=env, stdout=...)\<close> without
    the check of the exit status: it raises, or gives the exit status and the captured
    standard output;
  \<^item> \<open>spawn_shell hook\<close> is \<^verbatim>\<open>subprocess.run(hook, shell=True)\<close>, likewise;
  \<^item> \<open>environ\<close> is \<^verbatim>\<open>os.environ\<close>; \<open>safe_load\<close> is \<^verbatim>\<open>yaml.safe_load\<close>;
  \<^item> \<open>strptime s\<close> is \<^verbatim>\<open>datetime.strptime(s, "%Y-%m-%dT%H:%M:%S.%f")\<close> and \<open>now\<close> is
    \<^verbatim>\<open>datetime.now()\<close>, both as seconds on one local time line.

  What the program does to the outside is recorded as a list of events: a call of
  \<^verbatim>\<open>SubprocessRunner.run\<close> (\<open>Invoke\<close>, with the command line, the environment and
  whether the output is captured), a call of \<^verbatim>\<open>SubprocessRunner.run_hook\<close>
  (\<open>RunHook\<close>) and a line written by \<^verbatim>\<open>print\<close> (\<open>Print\<close>).
\<close>

record world =
  spawn :: "yaml list \<Rightarrow> (string \<times> yaml) list \<Rightarrow> bool \<Rightarrow> (int \<times> string) result"
  spawn_shell :: "yaml \<Rightarrow> int result"
  environ :: "(string \<times> yaml) list"
  safe_load :: "string \<Rightarrow> yaml result"
  strptime :: "yaml \<Rightarrow> rat result"
  now :: rat

datatype event =
    Invoke "yaml list" "(string \<times> yaml) list" bool
  | RunHook yaml
  | Print string

text \<open>A computation gives the events it caused and its result or the exception raised.\<close>

type_synonym 'a io = "event list \<times> 'a result"

definition io_bind :: "'a io \<Rightarrow> ('a \<Rightarrow> 'b io) \<Rightarrow> 'b io" where
  "io_bind m f =
     (case snd m of
        Inl e \<Rightarrow> (fst m, Inl e)
      | Inr x \<Rightarrow> (fst m @ fst (f x), snd (f x)))"

definition lift :: "'a result \<Rightarrow> 'a io" where
  "lift r = ([], r)"

definition print :: "string \<Rightarrow> unit io" where
  "print s = ([Print s], Inr ())"

definition sys_exit :: "int \<Rightarrow> unit io" where
  "sys_exit n = ([], Inl (SystemExit n))"

text \<open>\<^verbatim>\<open>check=True\<close>: an exit status other than 0 raises \<^verbatim>\<open>CalledProcessError\<close>.\<close>

definition SubprocessRunner_run ::
  "world \<Rightarrow> yaml list \<Rightarrow> (string \<times> yaml) list \<Rightarrow> bool \<Rightarrow> string io" where
  "SubprocessRunner_run w cmds env capture =
     ([Invoke cmds env capture],
      ebind (spawn w cmds env capture)
        (\<lambda>p. if fst p \<noteq> 0 then Inl (CalledProcessError (fst p)) else Inr (snd p)))"

definition SubprocessRunner_run_hook :: "world \<Rightarrow> yaml \<Rightarrow> unit io" where
  "SubprocessRunner_run_hook w hook =
     ([RunHook hook],
      ebind (spawn_shell w hook)
        (\<lambda>rc. if rc \<noteq> 0 then Inl (CalledProcessError rc) else Inr ()))"

subsection \<open>\<^verbatim>\<open>run\<close>\<close>

definition run ::
  "world \<Rightarrow> string \<Rightarrow> yaml \<Rightarrow> bool \<Rightarrow> yaml list \<Rightarrow> yaml \<Rightarrow> bool \<Rightarrow> string io" where
  "run w action config archive args trailing_args capture_stdout =
     io_bind (lift (ebind (py_getitem config ''remote'') (\<lambda>remote. py_getitem remote ''repository'')))
       (\<lambda>repo0.
     io_bind (lift
       (if archive then
          ebind (ebind (py_getitem config ''remote'') (\<lambda>remote. py_getitem remote ''prefix''))
            (\<lambda>prefix. py_iadd_str repo0 (''::'' @ py_str prefix @ ''-{utcnow:%Y-%m-%dT%H:%M:%SZ}''))
        else Inr repo0))
       (\<lambda>repo.
     io_bind (lift
       (ebind (py_getitem config ''remote'') (\<lambda>remote.
        ebind (py_contains ''rsh'' remote) (\<lambda>has_rsh.
          if has_rsh then
            ebind (ebind (py_getitem config ''remote'') (\<lambda>remote. py_getitem remote ''rsh''))
              (\<lambda>rsh. Inr (AList.update ''BORG_RSH'' rsh (environ w)))
          else Inr (environ w)))))
       (\<lambda>env.
     io_bind (lift (py_list_add ([YStr ''borgbackup'', YStr action] @ args @ [repo]) trailing_args))
       (\<lambda>cmds. SubprocessRunner_run w cmds env capture_stdout))))"

subsection \<open>\<^verbatim>\<open>action_create\<close>, \<^verbatim>\<open>action_list\<close>\<close>

text \<open>One \<^verbatim>\<open>if key in config["location"] and config_is_true(config["location"][key]):
  cmd.append(flag)\<close>.\<close>

definition flag_if_true :: "yaml \<Rightarrow> string \<Rightarrow> string \<Rightarrow> yaml list \<Rightarrow> yaml list result" where
  "flag_if_true config key flag cmd =
     ebind (py_getitem config ''location'') (\<lambda>location.
     ebind (py_contains key location) (\<lambda>present.
       if present then
         ebind (ebind (py_getitem config ''location'') (\<lambda>location. py_getitem location key))
           (\<lambda>v. if config_is_true v then Inr (cmd @ [YStr flag]) else Inr cmd)
       else Inr cmd))"

text \<open>One \<^verbatim>\<open>if key in config["location"]: for exclude in config["location"][key]:
  cmd += [flag, exclude]\<close>.\<close>

definition flag_for_each :: "yaml \<Rightarrow> string \<Rightarrow> string \<Rightarrow> yaml list \<Rightarrow> yaml list result" where
  "flag_for_each config key flag cmd =
     ebind (py_getitem config ''location'') (\<lambda>location.
     ebind (py_contains key location) (\<lambda>present.
       if present then
         ebind (ebind (py_getitem config ''location'') (\<lambda>location. py_getitem location key))
           (\<lambda>v. ebind (py_iter v)
             (\<lambda>excludes. Inr (cmd @ concat (map (\<lambda>exclude. [YStr flag, exclude]) excludes))))
       else Inr cmd))"

definition action_create :: "world \<Rightarrow> yaml \<Rightarrow> bool \<Rightarrow> unit io" where
  "action_create w config dry_run =
     io_bind (lift (ebind (py_getitem config ''location'') (\<lambda>location. py_getitem location ''source'')))
       (\<lambda>source0.
     let source = (case source0 of YStr s \<Rightarrow> YList [source0] | _ \<Rightarrow> source0) in
     io_bind (lift
       (ebind (py_getitem config ''remote'') (\<lambda>remote.
        ebind (py_contains ''compression'' remote) (\<lambda>present.
          if present then
            ebind (ebind (py_getitem config ''remote'') (\<lambda>remote. py_getitem remote ''compression''))
              (\<lambda>c. Inr ([] @ [YStr ''--compression'', c]))
          else Inr []))))
       (\<lambda>cmd1.
     io_bind (lift (flag_if_true config ''one_file_system'' ''--one-file-system'' cmd1))
       (\<lambda>cmd2.
     io_bind (lift (flag_if_true config ''exclude_caches'' ''--exclude-caches'' cmd2))
       (\<lambda>cmd3.
     io_bind (lift (flag_for_each config ''exclude_if_present'' ''--exclude-if-present'' cmd3))
       (\<lambda>cmd4.
     io_bind (lift (flag_for_each config ''exclude'' ''--exclude'' cmd4))
       (\<lambda>cmd5.
     let cmd = (if dry_run then cmd5 @ [YStr ''--dry-run''] else cmd5) in
     io_bind (run w ''create'' config True cmd source False) (\<lambda>_. ([], Inr ()))))))))"

definition action_list :: "world \<Rightarrow> yaml \<Rightarrow> unit io" where
  "action_list w config =
     io_bind (run w ''list'' config False [] (YList []) False) (\<lambda>_. ([], Inr ()))"

subsection \<open>\<^verbatim>\<open>action_check_age\<close>\<close>

definition action_check_age :: "world \<Rightarrow> yaml \<Rightarrow> int \<Rightarrow> int option \<Rightarrow> unit io" where
  "action_check_age w config max_age min_size =
     io_bind (run w ''info'' config False [YStr ''--last'', YStr ''1'', YStr ''--json''] (YList []) True)
       (\<lambda>stdout.
     io_bind (lift (safe_load w stdout))
       (\<lambda>last_backup.
     io_bind (lift
       (ebind (py_getitem last_backup ''archives'') (\<lambda>archives.
        ebind (py_getitem0 archives) (\<lambda>archive. py_getitem archive ''start''))))
       (\<lambda>start.
     io_bind (lift (strptime w start))
       (\<lambda>backup_start.
     if now w - backup_start > of_int max_age then
       io_bind (print (''BORGBACKUP WARNING: last backup too old'' @ [CHR 0x0A, CHR 0x0A] @ py_str start))
         (\<lambda>_. sys_exit 1)
     else
       io_bind (lift
         (ebind (py_getitem last_backup ''archives'') (\<lambda>archives.
          ebind (py_getitem0 archives) (\<lambda>archive.
          ebind (py_getitem archive ''stats'') (\<lambda>stats. py_getitem stats ''original_size'')))))
         (\<lambda>size.
       io_bind (lift
         (case min_size of
            None \<Rightarrow> Inr False
          | Some m \<Rightarrow> if m = 0 then Inr False else py_lt_int size m))
         (\<lambda>too_small.
       if too_small then
         io_bind (print (''BORGBACKUP WARNING: last backup too small'' @ [CHR 0x0A, CHR 0x0A]
                          @ py_str size @ ''B < ''
                          @ (case min_size of None \<Rightarrow> ''None'' | Some m \<Rightarrow> int_str m) @ ''B''))
           (\<lambda>_. sys_exit 1)
       else print ''BORGBACKUP OK''))))))"

subsection \<open>\<^verbatim>\<open>hooks_before\<close>, \<^verbatim>\<open>hooks_after\<close>\<close>

text \<open>The body of the loop \<^verbatim>\<open>for hook in config["hooks"][...]\<close>, the same in both functions.\<close>

fun hook_loop :: "world \<Rightarrow> bool \<Rightarrow> yaml list \<Rightarrow> unit io" where
  "hook_loop w dry_run [] = ([], Inr ())"
| "hook_loop w dry_run (hook # hooks) =
     io_bind
       (if dry_run then
          print (''Not running hook '' @ [CHR 0x22] @ py_str hook @ [CHR 0x22]
                   @ '' as dry run is enabled.'')
        else SubprocessRunner_run_hook w hook)
       (\<lambda>_. hook_loop w dry_run hooks)"

definition hooks_of :: "world \<Rightarrow> yaml \<Rightarrow> string \<Rightarrow> bool \<Rightarrow> unit io" where
  "hooks_of w config which dry_run =
     io_bind (lift (py_contains ''hooks'' config))
       (\<lambda>has_hooks.
     if \<not> has_hooks then ([], Inr ())
     else
       io_bind (lift (ebind (py_getitem config ''hooks'') (\<lambda>hooks. py_contains which hooks)))
         (\<lambda>has_which.
       if \<not> has_which then ([], Inr ())
       else
         io_bind (lift
           (ebind (ebind (py_getitem config ''hooks'') (\<lambda>hooks. py_getitem hooks which)) py_iter))
           (\<lambda>hooks. hook_loop w dry_run hooks)))"

definition hooks_before :: "world \<Rightarrow> yaml \<Rightarrow> bool \<Rightarrow> unit io" where
  "hooks_before w config dry_run = hooks_of w config ''before'' dry_run"

definition hooks_after :: "world \<Rightarrow> yaml \<Rightarrow> bool \<Rightarrow> unit io" where
  "hooks_after w config dry_run = hooks_of w config ''after'' dry_run"

subsection \<open>\<^verbatim>\<open>action_prune\<close>\<close>

text \<open>One \<^verbatim>\<open>if key in config["retention"]: cmd += [flag, str(config["retention"][key])]\<close>.\<close>

definition keep_flag :: "yaml \<Rightarrow> string \<Rightarrow> string \<Rightarrow> yaml list \<Rightarrow> yaml list result" where
  "keep_flag config key flag cmd =
     ebind (py_getitem config ''retention'') (\<lambda>retention.
     ebind (py_contains key retention) (\<lambda>present.
       if present then
         ebind (ebind (py_getitem config ''retention'') (\<lambda>retention. py_getitem retention key))
           (\<lambda>v. Inr (cmd @ [YStr flag, YStr (py_str v)]))
       else Inr cmd))"

definition action_prune :: "world \<Rightarrow> yaml \<Rightarrow> bool \<Rightarrow> unit io" where
  "action_prune w config dry_run =
     io_bind (lift (ebind (py_getitem config ''remote'') (\<lambda>remote. py_getitem remote ''prefix'')))
       (\<lambda>prefix.
     let cmd0 = [YStr ''--stats'', YStr ''--list''] @ [YStr ''--prefix'', prefix];
         cmd1 = (if dry_run then cmd0 @ [YStr ''--dry-run''] else cmd0) in
     io_bind (lift
       (ebind (keep_flag config ''keep_last'' ''--keep-last'' cmd1) (\<lambda>cmd2.
        ebind (keep_flag config ''keep_within'' ''--keep-within'' cmd2) (\<lambda>cmd3.
        ebind (keep_flag config ''keep_hourly'' ''--keep-hourly'' cmd3) (\<lambda>cmd4.
        ebind (keep_flag config ''keep_daily'' ''--keep-daily'' cmd4) (\<lambda>cmd5.
        ebind (keep_flag config ''keep_weekly'' ''--keep-weekly'' cmd5) (\<lambda>cmd6.
        ebind (keep_flag config ''keep_monthly'' ''--keep-monthly'' cmd6) (\<lambda>cmd7.
        keep_flag config ''keep_yearly'' ''--keep-yearly'' cmd7))))))))
       (\<lambda>cmd.
     io_bind (run w ''prune'' config False cmd (YList []) False) (\<lambda>_. ([], Inr ()))))"

subsection \<open>The actions' \<^verbatim>\<open>execute\<close> methods\<close>

text \<open>The parsed command line (\<^verbatim>\<open>args\<close>): \<^verbatim>\<open>--dry-run\<close>, \<^verbatim>\<open>--no-prune\<close>,
  \<^verbatim>\<open>--max-age\<close> (hours) and \<^verbatim>\<open>--min-size\<close> (MiB, \<open>None\<close> when not given).\<close>

record args =
  args_dry_run :: bool
  args_no_prune :: bool
  args_max_age :: int
  args_min_size :: "int option"

definition CreateAction_execute :: "world \<Rightarrow> yaml \<Rightarrow> args \<Rightarrow> unit io" where
  "CreateAction_execute w config a =
     io_bind (hooks_before w config (args_dry_run a)) (\<lambda>_.
     io_bind (action_create w config (args_dry_run a)) (\<lambda>_.
     io_bind (hooks_after w config (args_dry_run a)) (\<lambda>_.
     if \<not> args_no_prune a then action_prune w config (args_dry_run a) else ([], Inr ()))))"

definition ListAction_execute :: "world \<Rightarrow> yaml \<Rightarrow> args \<Rightarrow> unit io" where
  "ListAction_execute w config a = action_list w config"


definition CheckAgeAction_execute :: "world \<Rightarrow> yaml \<Rightarrow> args \<Rightarrow> unit io" where
  "CheckAgeAction_execute w config a =
     (let min_size =
            (case args_min_size a of
               None \<Rightarrow> None
             | Some m \<Rightarrow> if m = 0 then None else Some (m * 1024 * 1024))
      in action_check_age w config (args_max_age a * 3600) min_size)"


section \<open>Observations used in the statements\<close>

text \<open>The coercion rule as the specification words it: the boolean true, a string that
  is \<open>yes\<close> or \<open>true\<close> up to case, or the integer 1.\<close>

definition spec_truthy :: "yaml \<Rightarrow> bool" where
  "spec_truthy v =
     (v = YBool True
      \<or> (case v of YStr s \<Rightarrow> py_lower s = ''yes'' \<or> py_lower s = ''true'' | _ \<Rightarrow> False)
      \<or> v = YInt 1)"

text \<open>The hooks that a configuration declares under \<open>hooks.before\<close> or \<open>hooks.after\<close>, in
  declaration order: none when the \<open>hooks\<close> section or the key is absent. \<open>None\<close> when the
  section is not a mapping or the entry is not a sequence.\<close>

definition declared_hooks :: "(string \<times> yaml) list \<Rightarrow> string \<Rightarrow> yaml list option" where
  "declared_hooks cfg which =
     (case map_of cfg ''hooks'' of
        None \<Rightarrow> Some []
      | Some (YDict hooks) \<Rightarrow>
          (case map_of hooks which of
             None \<Rightarrow> Some []
           | Some (YList hs) \<Rightarrow> Some hs
           | Some _ \<Rightarrow> None)
      | Some _ \<Rightarrow> None)"








fun is_Invoke :: "event \<Rightarrow> bool" where
  "is_Invoke (Invoke cmds env capture) = True"
| "is_Invoke _ = False"

text \<open>The configuration with \<open>location.source\<close> replaced by \<open>v\<close>.\<close>

definition with_source :: "yaml \<Rightarrow> yaml \<Rightarrow> yaml" where
  "with_source config v =
     (case config of
        YDict cfg \<Rightarrow>
          (case map_of cfg ''location'' of
             Some (YDict l) \<Rightarrow>
               YDict (AList.update ''location'' (YDict (AList.update ''source'' v l)) cfg)
           | _ \<Rightarrow> config)
      | _ \<Rightarrow> config)"




subsection \<open>Example inputs\<close>

text \<open>The configuration of the repository's tests (\<^verbatim>\<open>borgwrap_test.py\<close>), with a
  retention section, and a fuller one whose keys are not in the order in which the
  program reads them.\<close>

definition test_config :: "(string \<times> yaml) list" where
  "test_config =
     [(''location'', YDict [(''source'', YList [YStr ''source1'', YStr ''source2''])]),
      (''remote'', YDict [(''repository'', YStr ''/path/testrepo''), (''prefix'', YStr ''testprefix'')]),
      (''retention'', YDict [])]"

definition full_remote :: "(string \<times> yaml) list" where
  "full_remote =
     [(''prefix'', YStr ''host''), (''compression'', YStr ''lz4''),
      (''repository'', YStr ''/repo'')]"

definition full_location :: "(string \<times> yaml) list" where
  "full_location =
     [(''exclude'', YList [YStr ''*.tmp'', YStr ''/proc'']),
      (''exclude_caches'', YStr ''Yes''),
      (''source'', YStr ''/home''),
      (''one_file_system'', YInt 0),
      (''exclude_if_present'', YList [YStr ''.nobackup''])]"

definition full_retention :: "(string \<times> yaml) list" where
  "full_retention =
     [(''keep_yearly'', YInt 1), (''keep_daily'', YInt 7), (''keep_within'', YStr ''2d'')]"

definition full_hooks :: "(string \<times> yaml) list" where
  "full_hooks = [(''after'', YList [YStr ''sync'']), (''before'', YList [YStr ''true'', YStr ''date''])]"

definition full_config :: "(string \<times> yaml) list" where
  "full_config =
     [(''retention'', YDict full_retention), (''hooks'', YDict full_hooks),
      (''location'', YDict full_location), (''remote'', YDict full_remote)]"


text \<open>A status report with one archive, started at second 0 of the time line, and a
  world in which it is now ten hours later, every command exits with status 0 except
  the shell command \<^verbatim>\<open>false\<close>, and the tool prints that report.\<close>

definition test_report :: yaml where
  "test_report =
     YDict [(''archives'',
       YList [YDict [(''start'', YStr ''2024-01-01T00:00:00.000000''),
                     (''stats'', YDict [(''original_size'', YInt 5000000)])]])]"

definition test_world :: "yaml \<Rightarrow> world" where
  "test_world report =
     \<lparr> spawn = (\<lambda>cmds env capture. Inr (0, ''report'')),
       spawn_shell = (\<lambda>hook. if hook = YStr ''false'' then Inr 1 else Inr 0),
       environ = [],
       safe_load = (\<lambda>text. Inr report),
       strptime = (\<lambda>v. if v = YStr ''2024-01-01T00:00:00.000000'' then Inr 0 else Inl ValueError),
       now = 36000 \<rparr>"




section \<open>Basic facts\<close>

lemma ebind_Inr: "ebind (Inr x) f = f x"
  by (simp add: ebind_def)

lemma ebind_Inl: "ebind (Inl e) f = Inl e"
  by (simp add: ebind_def)

lemma io_bind_lift_Inr: "io_bind (lift (Inr x)) f = f x"
  by (simp add: io_bind_def lift_def)

lemma io_bind_lift_Inl: "io_bind (lift (Inl e)) f = ([], Inl e)"
  by (simp add: io_bind_def lift_def)

lemma io_bind_Inr: "io_bind (tr, Inr x) f = (tr @ fst (f x), snd (f x))"
  by (simp add: io_bind_def)

lemma io_bind_Inl: "io_bind (tr, Inl e) f = (tr, Inl e)"
  by (simp add: io_bind_def)

lemmas monad_simps =
  ebind_Inr ebind_Inl io_bind_lift_Inr io_bind_lift_Inl io_bind_Inr io_bind_Inl

subsection \<open>\<^verbatim>\<open>run\<close> on a configuration with a \<open>remote\<close> section\<close>

lemma run_archive:
  assumes "map_of cfg ''remote'' = Some (YDict r)"
    and "map_of r ''repository'' = Some (YStr repo)"
    and "map_of r ''prefix'' = Some p"
  shows "run w action (YDict cfg) True args (YList tr) cap =
     SubprocessRunner_run w
       ([YStr ''borgbackup'', YStr action] @ args
          @ [YStr (repo @ ''::'' @ py_str p @ ''-{utcnow:%Y-%m-%dT%H:%M:%SZ}'')] @ tr)
       (case map_of r ''rsh'' of None \<Rightarrow> environ w | Some v \<Rightarrow> AList.update ''BORG_RSH'' v (environ w))
       cap"
  using assms by (cases "map_of r ''rsh''") (simp_all add: run_def monad_simps)

lemma run_plain:
  assumes "map_of cfg ''remote'' = Some (YDict r)"
    and "map_of r ''repository'' = Some repo"
  shows "run w action (YDict cfg) False args (YList tr) cap =
     SubprocessRunner_run w
       ([YStr ''borgbackup'', YStr action] @ args @ [repo] @ tr)
       (case map_of r ''rsh'' of None \<Rightarrow> environ w | Some v \<Rightarrow> AList.update ''BORG_RSH'' v (environ w))
       cap"
  using assms by (cases "map_of r ''rsh''") (simp_all add: run_def monad_simps)



lemma SubprocessRunner_run_fst: "fst (SubprocessRunner_run w cmds env cap) = [Invoke cmds env cap]"
  by (simp add: SubprocessRunner_run_def)

lemma fst_io_bind_unit: "fst (io_bind m (\<lambda>_. ([], Inr ()))) = fst m"
  by (simp add: io_bind_def split: sum.splits)

subsection \<open>The steps that add flags\<close>

lemma flag_if_true_dict:
  assumes "map_of cfg ''location'' = Some (YDict l)"
  shows "flag_if_true (YDict cfg) key flag cmd =
     Inr (cmd @ (if (case map_of l key of None \<Rightarrow> False | Some v \<Rightarrow> config_is_true v)
                 then [YStr flag] else []))"
  using assms by (cases "map_of l key") (simp_all add: flag_if_true_def monad_simps)

lemma flag_for_each_dict:
  assumes "map_of cfg ''location'' = Some (YDict l)"
    and "map_of l key = map_option YList es"
  shows "flag_for_each (YDict cfg) key flag cmd =
     Inr (cmd @ concat (map (\<lambda>e. [YStr flag, e]) (case es of None \<Rightarrow> [] | Some xs \<Rightarrow> xs)))"
  using assms by (cases es) (simp_all add: flag_for_each_def monad_simps)

lemma keep_flag_dict:
  assumes "map_of cfg ''retention'' = Some (YDict ret)"
  shows "keep_flag (YDict cfg) key flag cmd =
     Inr (cmd @ (case map_of ret key of None \<Rightarrow> [] | Some v \<Rightarrow> [YStr flag, YStr (py_str v)]))"
  using assms by (cases "map_of ret key") (simp_all add: keep_flag_def monad_simps)


subsection \<open>Hooks\<close>


lemma hook_loop_fails:
  assumes "\<forall>p\<in>set pre. spawn_shell w p = Inr 0"
    and "spawn_shell w h = Inr n" and "n \<noteq> 0"
  shows "hook_loop w False (pre @ h # post) = (map RunHook pre @ [RunHook h], Inl (CalledProcessError n))"
  using assms
  by (induction pre) (auto simp: SubprocessRunner_run_hook_def monad_simps)

lemma hooks_of_declared:
  assumes "declared_hooks cfg which = Some hs"
  shows "hooks_of w (YDict cfg) which dry_run = hook_loop w dry_run hs"
  using assms
  by (auto simp: declared_hooks_def hooks_of_def monad_simps
      split: option.splits yaml.splits)

lemma hook_loop_no_Invoke: "\<not> list_ex is_Invoke (fst (hook_loop w dry_run hs))"
  by (induction hs)
     (auto simp: io_bind_def print_def SubprocessRunner_run_hook_def split: sum.splits)

lemma hooks_of_no_Invoke: "\<not> list_ex is_Invoke (fst (hooks_of w config which dry_run))"
  using hook_loop_no_Invoke
  by (auto simp: hooks_of_def io_bind_def lift_def split: sum.splits)

subsection \<open>Valid policies\<close>










subsection \<open>The monitoring check on a well-formed report\<close>


subsection \<open>Configurations that differ in \<open>location.source\<close> only\<close>

lemma flag_if_true_cong:
  assumes "py_getitem c1 ''location'' = Inr (YDict l1)" "py_getitem c2 ''location'' = Inr (YDict l2)"
    and "map_of l1 key = map_of l2 key"
  shows "flag_if_true c1 key flag cmd = flag_if_true c2 key flag cmd"
  using assms by (simp add: flag_if_true_def monad_simps)

lemma flag_for_each_cong:
  assumes "py_getitem c1 ''location'' = Inr (YDict l1)" "py_getitem c2 ''location'' = Inr (YDict l2)"
    and "map_of l1 key = map_of l2 key"
  shows "flag_for_each c1 key flag cmd = flag_for_each c2 key flag cmd"
  using assms by (simp add: flag_for_each_def monad_simps)

lemma run_cong:
  assumes "py_getitem c1 ''remote'' = py_getitem c2 ''remote''"
  shows "run w action c1 archive args tr cap = run w action c2 archive args tr cap"
  unfolding run_def assms ..

lemma action_create_source_only:
  assumes loc1: "py_getitem c1 ''location'' = Inr (YDict l1)"
    and loc2: "py_getitem c2 ''location'' = Inr (YDict l2)"
    and src1: "map_of l1 ''source'' = Some (YStr s)"
    and src2: "map_of l2 ''source'' = Some (YList [YStr s])"
    and others: "\<And>key. key \<noteq> ''source'' \<Longrightarrow> map_of l1 key = map_of l2 key"
    and remote: "py_getitem c1 ''remote'' = py_getitem c2 ''remote''"
  shows "action_create w c1 dry_run = action_create w c2 dry_run"
proof -
  have flags: "flag_if_true c1 ''one_file_system'' f cmd = flag_if_true c2 ''one_file_system'' f cmd"
    "flag_if_true c1 ''exclude_caches'' f cmd = flag_if_true c2 ''exclude_caches'' f cmd"
    "flag_for_each c1 ''exclude_if_present'' f cmd = flag_for_each c2 ''exclude_if_present'' f cmd"
    "flag_for_each c1 ''exclude'' f cmd = flag_for_each c2 ''exclude'' f cmd" for f cmd
    using flag_if_true_cong [OF loc1 loc2] flag_for_each_cong [OF loc1 loc2] others
    by simp_all
  show ?thesis
    by (simp add: action_create_def loc1 loc2 src1 src2 remote flags monad_simps Let_def
        run_cong [OF remote] cong: if_cong)
qed

subsection \<open>A \<open>remote\<close> section without \<open>repository\<close> or \<open>prefix\<close>\<close>






lemma execute_stops_before_tool:
  assumes "\<exists>e. action_create w config (args_dry_run a) = ([], Inl e)"
  shows "\<not> list_ex is_Invoke (fst (CreateAction_execute w config a))
    \<and> (\<exists>e. snd (CreateAction_execute w config a) = Inl e)"
proof -
  from assms obtain e where e: "action_create w config (args_dry_run a) = ([], Inl e)"
    by blast
  have hooks: "\<not> list_ex is_Invoke (fst (hooks_before w config (args_dry_run a)))"
    by (simp add: hooks_before_def hooks_of_no_Invoke)
  show ?thesis
  proof (cases "snd (hooks_before w config (args_dry_run a))")
    case (Inl e')
    then show ?thesis
      using hooks by (simp add: CreateAction_execute_def io_bind_def)
  next
    case (Inr u)
    then show ?thesis
      using hooks by (simp add: CreateAction_execute_def io_bind_def e)
  qed
qed



subsection \<open>Configurations without \<open>location.source\<close> or without \<open>retention\<close>\<close>

lemma action_create_no_location:
  assumes "map_of cfg ''location'' = None"
  shows "action_create w (YDict cfg) dry_run = ([], Inl (KeyError (YStr ''location'')))"
  using assms by (simp add: action_create_def monad_simps)

lemma action_create_no_source:
  assumes "map_of cfg ''location'' = Some (YDict l)" and "map_of l ''source'' = None"
  shows "action_create w (YDict cfg) dry_run = ([], Inl (KeyError (YStr ''source'')))"
  using assms by (simp add: action_create_def monad_simps)

lemma action_prune_no_retention:
  assumes "map_of cfg ''remote'' = Some (YDict r)" and "map_of r ''prefix'' = Some p"
    and "map_of cfg ''retention'' = None"
  shows "action_prune w (YDict cfg) dry_run = ([], Inl (KeyError (YStr ''retention'')))"
  using assms by (simp add: action_prune_def keep_flag_def monad_simps Let_def)

lemma action_prune_empty_retention:
  assumes remote: "map_of cfg ''remote'' = Some (YDict r)" and prefix: "map_of r ''prefix'' = Some p"
    and repository: "map_of r ''repository'' = Some repo"
    and retention: "map_of cfg ''retention'' = Some (YDict [])"
  shows "fst (action_prune w (YDict cfg) dry_run) =
     [Invoke
        ([YStr ''borgbackup'', YStr ''prune'', YStr ''--stats'', YStr ''--list'', YStr ''--prefix'', p]
         @ (if dry_run then [YStr ''--dry-run''] else []) @ [repo])
        (case map_of r ''rsh'' of None \<Rightarrow> environ w | Some v \<Rightarrow> AList.update ''BORG_RSH'' v (environ w))
        False]"
  using remote prefix
  by (simp add: action_prune_def monad_simps Let_def keep_flag_dict [OF retention]
      run_plain [OF remote repository] fst_io_bind_unit SubprocessRunner_run_fst)

subsection \<open>The status query\<close>




section \<open>The claims\<close>

text \<open>
  C1. For a configuration whose \<open>remote\<close> section has a string \<open>repository\<close> and a
  \<open>prefix\<close>, and whose \<open>location\<close> section has a \<open>source\<close> (a string or a sequence) and
  \<open>exclude_if_present\<close> and \<open>exclude\<close> entries that are sequences when present, the one
  command that \<^verbatim>\<open>action_create\<close> hands to the runner is: the tool name, \<open>create\<close>,
  then \<open>--compression\<close> and its value if \<open>remote.compression\<close> is set,
  \<open>--one-file-system\<close> if \<open>location.one_file_system\<close> is truthy, \<open>--exclude-caches\<close> if
  \<open>location.exclude_caches\<close> is truthy, one \<open>--exclude-if-present\<close> pair per entry and
  one \<open>--exclude\<close> pair per entry in document order, \<open>--dry-run\<close> if requested, then
  the repository argument \<open>repository::prefix-{utcnow:...}\<close> with the placeholder left
  unresolved, then the source paths. The hypotheses and the command speak of the
  sections only through key lookups, so the order of the keys in the document plays no
  part.
\<close>

theorem create_command:
  assumes remote: "map_of cfg ''remote'' = Some (YDict r)"
    and repository: "map_of r ''repository'' = Some (YStr repo)"
    and prefix: "map_of r ''prefix'' = Some p"
    and location: "map_of cfg ''location'' = Some (YDict l)"
    and source: "map_of l ''source'' = Some src" "src = YStr s \<or> src = YList ss"
    and exclude_if_present: "map_of l ''exclude_if_present'' = map_option YList eip"
    and exclude: "map_of l ''exclude'' = map_option YList ex"
  shows "fst (action_create w (YDict cfg) dry_run) =
    [Invoke
      ([YStr ''borgbackup'', YStr ''create'']
       @ (case map_of r ''compression'' of None \<Rightarrow> [] | Some c \<Rightarrow> [YStr ''--compression'', c])
       @ (if (case map_of l ''one_file_system'' of None \<Rightarrow> False | Some v \<Rightarrow> config_is_true v)
          then [YStr ''--one-file-system''] else [])
       @ (if (case map_of l ''exclude_caches'' of None \<Rightarrow> False | Some v \<Rightarrow> config_is_true v)
          then [YStr ''--exclude-caches''] else [])
       @ concat (map (\<lambda>e. [YStr ''--exclude-if-present'', e]) (case eip of None \<Rightarrow> [] | Some xs \<Rightarrow> xs))
       @ concat (map (\<lambda>e. [YStr ''--exclude'', e]) (case ex of None \<Rightarrow> [] | Some xs \<Rightarrow> xs))
       @ (if dry_run then [YStr ''--dry-run''] else [])
       @ [YStr (repo @ ''::'' @ py_str p @ ''-{utcnow:%Y-%m-%dT%H:%M:%SZ}'')]
       @ (case src of YList paths \<Rightarrow> paths | _ \<Rightarrow> [src]))
      (case map_of r ''rsh'' of None \<Rightarrow> environ w | Some v \<Rightarrow> AList.update ''BORG_RSH'' v (environ w))
      False]"
proof -
  note steps = action_create_def monad_simps Let_def
    flag_if_true_dict [OF location] flag_for_each_dict [OF location exclude_if_present]
    flag_for_each_dict [OF location exclude]
    run_archive [OF remote repository prefix] fst_io_bind_unit SubprocessRunner_run_fst
  from source(2) show ?thesis
  proof
    assume "src = YStr s"
    then show ?thesis
      using remote location source(1)
      by (cases "map_of r ''compression''") (simp_all add: steps)
  next
    assume "src = YList ss"
    then show ?thesis
      using remote location source(1)
      by (cases "map_of r ''compression''") (simp_all add: steps)
  qed
qed

theorem create_command_witness:
  "fst (action_create (test_world test_report) (YDict full_config) True) =
     [Invoke
        [YStr ''borgbackup'', YStr ''create'', YStr ''--compression'', YStr ''lz4'',
         YStr ''--exclude-caches'', YStr ''--exclude-if-present'', YStr ''.nobackup'',
         YStr ''--exclude'', YStr ''*.tmp'', YStr ''--exclude'', YStr ''/proc'',
         YStr ''--dry-run'', YStr ''/repo::host-{utcnow:%Y-%m-%dT%H:%M:%SZ}'', YStr ''/home'']
        [] False]"
  using create_command [of full_config full_remote "''/repo''" "YStr ''host''" full_location
      "YStr ''/home''" "''/home''" "[]" "Some [YStr ''.nobackup'']"
      "Some [YStr ''*.tmp'', YStr ''/proc'']" "test_world test_report" True]
  by (simp add: full_config_def full_remote_def full_location_def test_world_def
      config_is_true_def py_lower_def lower_char_def py_str_def)





text \<open>
  C4. When \<open>hooks.before\<close> holds a command \<open>h\<close> that exits with a status \<open>n\<close> other than
  0, the hooks before it having succeeded, and dry-run is off, \<^verbatim>\<open>CreateAction.execute\<close>
  stops at \<open>h\<close>: the hooks up to and including \<open>h\<close> are all that was run (no later
  before-hook, no invocation of the tool, no after-hook, no prune), and the action fails
  with \<^verbatim>\<open>CalledProcessError\<close> carrying \<open>n\<close>.
\<close>

theorem before_hook_failure_aborts:
  assumes "map_of cfg ''hooks'' = Some (YDict hooks)"
    and "map_of hooks ''before'' = Some (YList (pre @ h # post))"
    and "\<forall>p\<in>set pre. spawn_shell w p = Inr 0"
    and "spawn_shell w h = Inr n" and "n \<noteq> 0"
    and "\<not> args_dry_run a"
  shows "CreateAction_execute w (YDict cfg) a =
           (map RunHook pre @ [RunHook h], Inl (CalledProcessError n))"
proof -
  have "declared_hooks cfg ''before'' = Some (pre @ h # post)"
    using assms(1,2) by (simp add: declared_hooks_def)
  then have "hooks_before w (YDict cfg) False =
      (map RunHook pre @ [RunHook h], Inl (CalledProcessError n))"
    using assms(3-5) by (simp add: hooks_before_def hooks_of_declared hook_loop_fails)
  with assms(6) show ?thesis
    by (simp add: CreateAction_execute_def monad_simps)
qed

theorem before_hook_failure_aborts_witness:
  "CreateAction_execute (test_world test_report)
     (YDict ((''hooks'', YDict [(''before'', YList [YStr ''true'', YStr ''false'', YStr ''date''])])
             # test_config))
     \<lparr>args_dry_run = False, args_no_prune = False, args_max_age = 0, args_min_size = None\<rparr> =
     ([RunHook (YStr ''true''), RunHook (YStr ''false'')], Inl (CalledProcessError 1))"
  using before_hook_failure_aborts
    [of "(''hooks'', YDict [(''before'', YList [YStr ''true'', YStr ''false'', YStr ''date''])]) # test_config"
        "[(''before'', YList [YStr ''true'', YStr ''false'', YStr ''date''])]"
        "[YStr ''true'']" "YStr ''false''" "[YStr ''date'']" "test_world test_report" 1
        "\<lparr>args_dry_run = False, args_no_prune = False, args_max_age = 0, args_min_size = None\<rparr>"]
  by (simp add: test_world_def)



text \<open>
  C6 (as amended). \<^verbatim>\<open>config_is_true\<close> returns true exactly for the boolean true, for a
  string that is \<open>yes\<close> or \<open>true\<close> up to case, for the integer 1, and for a float equal
  to 1: the last branch of the function compares with \<^verbatim>\<open>value == 1\<close>, which holds for
  \<^verbatim>\<open>1.0\<close> too. Every other value, among them the integer 0, any other string and
  \<^verbatim>\<open>None\<close>, gives false.
\<close>

theorem config_is_true_iff:
  "config_is_true v \<longleftrightarrow> spec_truthy v \<or> (\<exists>r. v = YFloat 1 r)"
  by (cases v) (auto simp: config_is_true_def spec_truthy_def)

theorem config_is_true_iff_witness:
  "config_is_true (YStr ''Yes'') \<and> \<not> config_is_true (YInt 0) \<and> \<not> config_is_true YNull
   \<and> \<not> config_is_true (YStr ''no'')"
  using config_is_true_iff [of "YStr ''Yes''"] config_is_true_iff [of "YInt 0"]
    config_is_true_iff [of YNull] config_is_true_iff [of "YStr ''no''"]
  by (simp add: spec_truthy_def py_lower_def lower_char_def)

text \<open>The claim as it is written fails for the float \<^verbatim>\<open>1.0\<close>, which is neither a
  boolean, nor a string, nor the integer 1, and which the function accepts.\<close>

theorem config_is_true_float_counterexample:
  "config_is_true (YFloat 1 ''1.0'') \<and> \<not> spec_truthy (YFloat 1 ''1.0'')"
  by (simp add: config_is_true_def spec_truthy_def)







text \<open>
  C9. For every configuration and every string \<open>s\<close>, \<^verbatim>\<open>action_create\<close> does the same
  with \<open>location.source\<close> set to \<open>s\<close> as with \<open>location.source\<close> set to the
  one-element sequence of \<open>s\<close>: the same command is handed to the runner, with the
  same outcome.
\<close>

theorem single_source_as_list:
  "action_create w (with_source config (YStr s)) dry_run =
   action_create w (with_source config (YList [YStr s])) dry_run"
proof (cases "\<exists>cfg l. config = YDict cfg \<and> map_of cfg ''location'' = Some (YDict l)")
  case True
  then obtain cfg l where config: "config = YDict cfg" and loc: "map_of cfg ''location'' = Some (YDict l)"
    by blast
  have ws: "with_source config v =
      YDict (AList.update ''location'' (YDict (AList.update ''source'' v l)) cfg)" for v
    by (simp add: with_source_def config loc)
  show ?thesis
    unfolding ws
    by (rule action_create_source_only
          [where ?l1.0 = "AList.update ''source'' (YStr s) l"
             and ?l2.0 = "AList.update ''source'' (YList [YStr s]) l" and s = s])
       (simp_all add: update_conv')
next
  case False
  then have "with_source config v = config" for v
    by (auto simp: with_source_def split: yaml.splits option.splits)
  then show ?thesis by simp
qed

theorem single_source_as_list_witness:
  "action_create (test_world test_report) (YDict full_config) False =
   action_create (test_world test_report)
     (YDict [(''retention'', YDict full_retention), (''hooks'', YDict full_hooks),
        (''location'', YDict
           [(''exclude'', YList [YStr ''*.tmp'', YStr ''/proc'']),
            (''exclude_caches'', YStr ''Yes''),
            (''source'', YList [YStr ''/home'']),
            (''one_file_system'', YInt 0),
            (''exclude_if_present'', YList [YStr ''.nobackup''])]),
        (''remote'', YDict full_remote)]) False"
  using single_source_as_list [of "test_world test_report" "YDict full_config" "''/home''" False]
  by (simp add: with_source_def full_config_def full_location_def)

text \<open>
  C10. \<^verbatim>\<open>action_create\<close> reads \<open>location.source\<close> first and unconditionally: on a
  configuration without a \<open>location\<close> section, or whose \<open>location\<close> section has no
  \<open>source\<close>, it raises \<^verbatim>\<open>KeyError\<close> at once, and the create action never invokes the
  tool. \<^verbatim>\<open>action_prune\<close> reads the \<open>retention\<close> section unconditionally: on a
  configuration with \<open>remote.prefix\<close> and no \<open>retention\<close> section it raises
  \<^verbatim>\<open>KeyError\<close> before the tool is invoked. Each key of the section is optional: with an
  empty \<open>retention\<close> section the tool is invoked, without any \<open>--keep-...\<close> flag.
\<close>

theorem source_and_retention_are_required:
  "(map_of cfg ''location'' = None
      \<longrightarrow> action_create w (YDict cfg) (args_dry_run a) = ([], Inl (KeyError (YStr ''location'')))
        \<and> \<not> list_ex is_Invoke (fst (CreateAction_execute w (YDict cfg) a)))
   \<and> (map_of cfg ''location'' = Some (YDict l) \<and> map_of l ''source'' = None
      \<longrightarrow> action_create w (YDict cfg) (args_dry_run a) = ([], Inl (KeyError (YStr ''source'')))
        \<and> \<not> list_ex is_Invoke (fst (CreateAction_execute w (YDict cfg) a)))
   \<and> (map_of cfg ''remote'' = Some (YDict r) \<and> map_of r ''prefix'' = Some p
        \<and> map_of cfg ''retention'' = None
      \<longrightarrow> action_prune w (YDict cfg) (args_dry_run a) = ([], Inl (KeyError (YStr ''retention''))))
   \<and> (map_of cfg ''remote'' = Some (YDict r) \<and> map_of r ''prefix'' = Some p
        \<and> map_of r ''repository'' = Some repo \<and> map_of cfg ''retention'' = Some (YDict [])
      \<longrightarrow> fst (action_prune w (YDict cfg) (args_dry_run a)) =
           [Invoke
              ([YStr ''borgbackup'', YStr ''prune'', YStr ''--stats'', YStr ''--list'',
                YStr ''--prefix'', p]
               @ (if args_dry_run a then [YStr ''--dry-run''] else []) @ [repo])
              (case map_of r ''rsh'' of None \<Rightarrow> environ w
               | Some v \<Rightarrow> AList.update ''BORG_RSH'' v (environ w))
              False])"
proof -
  have 1: "\<not> list_ex is_Invoke (fst (CreateAction_execute w (YDict cfg) a))"
    if "map_of cfg ''location'' = None"
    using execute_stops_before_tool [of w "YDict cfg" a] action_create_no_location [OF that]
    by blast
  have 2: "\<not> list_ex is_Invoke (fst (CreateAction_execute w (YDict cfg) a))"
    if "map_of cfg ''location'' = Some (YDict l)" "map_of l ''source'' = None"
    using execute_stops_before_tool [of w "YDict cfg" a] action_create_no_source [OF that]
    by blast
  show ?thesis
    using 1 2 action_create_no_location action_create_no_source action_prune_no_retention
      action_prune_empty_retention
    by blast
qed

theorem source_and_retention_are_required_witness:
  "action_create (test_world test_report) (YDict []) False = ([], Inl (KeyError (YStr ''location'')))
   \<and> action_create (test_world test_report) (YDict [(''location'', YDict [(''exclude'', YList [])])]) False
       = ([], Inl (KeyError (YStr ''source'')))
   \<and> action_prune (test_world test_report)
        (YDict [(''remote'', YDict [(''repository'', YStr ''/path/testrepo''), (''prefix'', YStr ''testprefix'')])])
        False = ([], Inl (KeyError (YStr ''retention'')))
   \<and> fst (action_prune (test_world test_report) (YDict test_config) False) =
        [Invoke [YStr ''borgbackup'', YStr ''prune'', YStr ''--stats'', YStr ''--list'',
                 YStr ''--prefix'', YStr ''testprefix'', YStr ''/path/testrepo''] [] False]"
proof -
  let ?a = "\<lparr>args_dry_run = False, args_no_prune = False, args_max_age = 0, args_min_size = None\<rparr>"
  let ?r = "[(''repository'', YStr ''/path/testrepo''), (''prefix'', YStr ''testprefix'')]"
  show ?thesis
    using source_and_retention_are_required [where a = ?a and w = "test_world test_report" and cfg = "[]"]
      source_and_retention_are_required [where a = ?a and w = "test_world test_report"
        and cfg = "[(''location'', YDict [(''exclude'', YList [])])]" and l = "[(''exclude'', YList [])]"]
      source_and_retention_are_required [where a = ?a and w = "test_world test_report"
        and cfg = "[(''remote'', YDict ?r)]" and r = ?r and p = "YStr ''testprefix''"]
      source_and_retention_are_required [where a = ?a and w = "test_world test_report"
        and cfg = test_config and r = ?r and p = "YStr ''testprefix''" and repo = "YStr ''/path/testrepo''"]
    by (simp add: test_config_def test_world_def)
qed

end
